theory Spec2Isabelle
  imports Main "HOL-Library.Sublist"
begin

section \<open>Python values and the string operations the server uses\<close>

text \<open>
  The module \<^verbatim>\<open>server.py\<close> holds three nested dictionary literals and eight tool
  functions that render them as text. A value of the tables is a string, a list or a
  dictionary; a dictionary keeps the insertion order of its literal, so it is an
  association list. A Python \<^verbatim>\<open>str\<close> is a \<open>string\<close> holding its UTF-8 encoding:
  concatenation, equality, \<^verbatim>\<open>join\<close> and the replacement of the ASCII underscore act
  on it as they act on the code points. The case mappings \<^verbatim>\<open>upper\<close> and \<^verbatim>\<open>title\<close>
  are those of the ASCII letters, every other character being uncased and unchanged;
  this is all of Python's behaviour on the keys of the tables, which are ASCII.
\<close>

datatype pyval = PStr string | PList "pyval list" | PDict "(string \<times> pyval) list"

datatype error = KeyError string | TypeError | AttributeError

abbreviation NL :: string where
  "NL \<equiv> [CHR 0x0A]"

definition bind :: "error + 'a \<Rightarrow> ('a \<Rightarrow> error + 'b) \<Rightarrow> error + 'b" where
  "bind r f = (case r of Inl e \<Rightarrow> Inl e | Inr x \<Rightarrow> f x)"

text \<open>A \<^verbatim>\<open>for\<close> loop over a sequence whose body updates one variable and may raise.\<close>

fun for_each :: "('a \<Rightarrow> 's \<Rightarrow> error + 's) \<Rightarrow> 'a list \<Rightarrow> 's \<Rightarrow> error + 's" where
  "for_each body [] s = Inr s"
| "for_each body (x # xs) s = bind (body x s) (for_each body xs)"

text \<open>\<^verbatim>\<open>s.replace(old, new)\<close> for one-character \<^verbatim>\<open>old\<close> and \<^verbatim>\<open>new\<close>.\<close>

definition str_replace :: "char \<Rightarrow> char \<Rightarrow> string \<Rightarrow> string" where
  "str_replace old new s = map (\<lambda>c. if c = old then new else c) s"

definition ascii_lowercase :: string where
  "ascii_lowercase = ''abcdefghijklmnopqrstuvwxyz''"

definition ascii_uppercase :: string where
  "ascii_uppercase = ''ABCDEFGHIJKLMNOPQRSTUVWXYZ''"

definition upper_char :: "char \<Rightarrow> char" where
  "upper_char c = (case map_of (zip ascii_lowercase ascii_uppercase) c of Some u \<Rightarrow> u | None \<Rightarrow> c)"

definition lower_char :: "char \<Rightarrow> char" where
  "lower_char c = (case map_of (zip ascii_uppercase ascii_lowercase) c of Some l \<Rightarrow> l | None \<Rightarrow> c)"

definition is_cased :: "char \<Rightarrow> bool" where
  "is_cased c = (c \<in> set (ascii_lowercase @ ascii_uppercase))"

definition upper :: "string \<Rightarrow> string" where
  "upper s = map upper_char s"

text \<open>
  \<^verbatim>\<open>s.title()\<close>: a character that follows a cased character is lowercased, any other
  is uppercased.
\<close>

fun title_from :: "bool \<Rightarrow> string \<Rightarrow> string" where
  "title_from previous_is_cased [] = []"
| "title_from previous_is_cased (c # cs) =
     (if previous_is_cased then lower_char c else upper_char c) # title_from (is_cased c) cs"

definition title :: "string \<Rightarrow> string" where
  "title s = title_from False s"

text \<open>\<^verbatim>\<open>sep.join(xs)\<close> on a list of strings.\<close>

fun join :: "string \<Rightarrow> string list \<Rightarrow> string" where
  "join sep [] = []"
| "join sep [x] = x"
| "join sep (x # y # ys) = x @ sep @ join sep (y # ys)"

text \<open>
  \<^verbatim>\<open>repr\<close> of a string: single quotes, unless the string has a single quote and no
  double quote; the quote and the backslash are escaped, and so are the control
  characters.
\<close>

definition hex_digit :: "nat \<Rightarrow> char" where
  "hex_digit d = (if d < 10 then char_of (48 + d) else char_of (87 + d))"

definition repr_char :: "char \<Rightarrow> char \<Rightarrow> string" where
  "repr_char q c =
     (if c = q \<or> c = CHR 0x5C then [CHR 0x5C, c]
      else if c = CHR 0x09 then [CHR 0x5C, CHR ''t'']
      else if c = CHR 0x0A then [CHR 0x5C, CHR ''n'']
      else if c = CHR 0x0D then [CHR 0x5C, CHR ''r'']
      else if (of_char c :: nat) < 32 \<or> (of_char c :: nat) = 127
        then [CHR 0x5C, CHR ''x'', hex_digit ((of_char c :: nat) div 16),
              hex_digit ((of_char c :: nat) mod 16)]
      else [c])"

definition repr_str :: "string \<Rightarrow> string" where
  "repr_str s =
     (let q = (if CHR 0x27 \<in> set s \<and> CHR 0x22 \<notin> set s then CHR 0x22 else CHR 0x27)
      in [q] @ concat (map (repr_char q) s) @ [q])"

text \<open>\<^verbatim>\<open>repr\<close> of a list and of a dictionary, as \<^verbatim>\<open>str(details)\<close> prints them.\<close>

fun py_repr :: "pyval \<Rightarrow> string" where
  "py_repr (PStr s) = repr_str s"
| "py_repr (PList xs) = ''['' @ join '', '' (map py_repr xs) @ '']''"
| "py_repr (PDict kvs) =
     ''{'' @ join '', '' (map (\<lambda>(k, v). repr_str k @ '': '' @ py_repr v) kvs) @ ''}''"

text \<open>\<^verbatim>\<open>str(v)\<close>, which is also what an f-string field \<^verbatim>\<open>{v}\<close> prints.\<close>

definition py_str :: "pyval \<Rightarrow> string" where
  "py_str v = (case v of PStr s \<Rightarrow> s | _ \<Rightarrow> py_repr v)"

text \<open>\<^verbatim>\<open>d[k]\<close> with a string key: a missing key raises, and so does a value that is no dictionary.\<close>

definition subscript :: "pyval \<Rightarrow> string \<Rightarrow> error + pyval" where
  "subscript d k =
     (case d of
        PDict kvs \<Rightarrow> (case map_of kvs k of None \<Rightarrow> Inl (KeyError k) | Some v \<Rightarrow> Inr v)
      | _ \<Rightarrow> Inl TypeError)"

text \<open>\<^verbatim>\<open>d.get(k, default)\<close>; the default is evaluated before the call.\<close>

definition dict_get :: "pyval \<Rightarrow> string \<Rightarrow> error + pyval \<Rightarrow> error + pyval" where
  "dict_get d k dflt =
     (case d of
        PDict kvs \<Rightarrow>
          bind dflt (\<lambda>dv. Inr (case map_of kvs k of None \<Rightarrow> dv | Some v \<Rightarrow> v))
      | _ \<Rightarrow> Inl AttributeError)"

text \<open>\<^verbatim>\<open>d.items()\<close>.\<close>

definition items :: "pyval \<Rightarrow> error + (string \<times> pyval) list" where
  "items d = (case d of PDict kvs \<Rightarrow> Inr kvs | _ \<Rightarrow> Inl AttributeError)"

text \<open>
  \<^verbatim>\<open>sep.join(v)\<close> on a value: a list must hold strings only, a string is joined
  character by character, a dictionary by its keys.
\<close>

fun the_strs :: "pyval list \<Rightarrow> error + string list" where
  "the_strs [] = Inr []"
| "the_strs (PStr s # vs) = bind (the_strs vs) (\<lambda>ss. Inr (s # ss))"
| "the_strs (_ # vs) = Inl TypeError"

definition py_join :: "string \<Rightarrow> pyval \<Rightarrow> error + string" where
  "py_join sep v =
     (case v of
        PList xs \<Rightarrow> bind (the_strs xs) (\<lambda>ss. Inr (join sep ss))
      | PStr s \<Rightarrow> Inr (join sep (map (\<lambda>c. [c]) s))
      | PDict kvs \<Rightarrow> Inr (join sep (map fst kvs)))"

text \<open>\<^verbatim>\<open>k in v\<close> for a string \<^verbatim>\<open>k\<close>.\<close>

definition py_in :: "string \<Rightarrow> pyval \<Rightarrow> bool" where
  "py_in k v =
     (case v of
        PDict kvs \<Rightarrow> k \<in> set (map fst kvs)
      | PList xs \<Rightarrow> PStr k \<in> set xs
      | PStr s \<Rightarrow> sublist k s)"

section \<open>The constant tables\<close>

text \<open>
  The dictionary literals of the module, key by key in source order. The five sections
  of \<^verbatim>\<open>RIBBON_TAXONOMY\<close> are named after their keys.
\<close>

definition movement_patterns :: pyval where
  "movement_patterns =
    PDict [
      (''spirals'', PDict [
        (''types'', PList [PStr ''vertical'', PStr ''horizontal'', PStr ''diagonal'', PStr ''conical'']),
        (''properties'', PList [PStr ''tight'', PStr ''loose'', PStr ''uniform'', PStr ''progressive'']),
        (''dynamics'', PList [PStr ''accelerating'', PStr ''decelerating'', PStr ''constant'', PStr ''pulsing'']),
        (''technical_notes'', PStr ''Arm must maintain consistent radius; wrist rotation drives spiral formation'')]),
      (''circles'', PDict [
        (''types'', PList [PStr ''full_circles'', PStr ''half_circles'', PStr ''figure_8'', PStr ''infinity'']),
        (''planes'', PList [PStr ''horizontal'', PStr ''vertical'', PStr ''diagonal'', PStr ''tilted'']),
        (''sizes'', PList [PStr ''small'', PStr ''medium'', PStr ''large'', PStr ''giant'']),
        (''technical_notes'', PStr ''Shoulder stability required; elbow extends for larger circles'')]),
      (''snakes'', PDict [
        (''types'', PList [PStr ''horizontal_snake'', PStr ''vertical_snake'', PStr ''diagonal_snake'']),
        (''wave_properties'', PList [PStr ''amplitude'', PStr ''frequency'', PStr ''symmetry'', PStr ''decay'']),
        (''transitions'', PList [PStr ''into_spiral'', PStr ''into_throw'', PStr ''into_circle'']),
        (''technical_notes'', PStr ''Rapid wrist oscillation; arm moves in opposite direction to ribbon'')]),
      (''throws'', PDict [
        (''types'', PList [PStr ''vertical'', PStr ''boomerang'', PStr ''stick_throw'', PStr ''escape'']),
        (''heights'', PList [PStr ''low'', PStr ''medium'', PStr ''high'', PStr ''ceiling'']),
        (''rotations'', PList [PStr ''none'', PStr ''half_turn'', PStr ''full_turn'', PStr ''multiple'']),
        (''technical_notes'', PStr ''Release point determines trajectory; catch requires visual tracking'')]),
      (''wraps'', PDict [
        (''types'', PList [PStr ''body_wrap'', PStr ''limb_wrap'', PStr ''neck_wrap'', PStr ''waist_wrap'']),
        (''entry_methods'', PList [PStr ''spiral_into'', PStr ''throw_into'', PStr ''pass_through'']),
        (''exit_methods'', PList [PStr ''unwrap'', PStr ''pull_through'', PStr ''throw_out'']),
        (''technical_notes'', PStr ''Tension control critical; body position affects wrap geometry'')]),
      (''swings'', PDict [
        (''types'', PList [PStr ''pendulum'', PStr ''arc'', PStr ''circular'', PStr ''elliptical'']),
        (''amplitudes'', PList [PStr ''small'', PStr ''medium'', PStr ''large'', PStr ''full_extension'']),
        (''rhythms'', PList [PStr ''regular'', PStr ''syncopated'', PStr ''accelerating'', PStr ''decelerating'']),
        (''technical_notes'', PStr ''Momentum management; gravity assists natural motion'')])]"

definition spatial_relationships :: pyval where
  "spatial_relationships =
    PDict [
      (''height_zones'', PDict [
        (''floor'', PDict [
          (''range'', PStr ''0-50cm''),
          (''techniques'', PList [PStr ''floor_rolls'', PStr ''low_snakes'', PStr ''ground_spirals''])]),
        (''low'', PDict [
          (''range'', PStr ''50cm-1m''),
          (''techniques'', PList [PStr ''low_circles'', PStr ''leg_passes'', PStr ''seated_elements''])]),
        (''mid'', PDict [
          (''range'', PStr ''1-1.5m''),
          (''techniques'', PList [PStr ''standard_circles'', PStr ''body_wraps'', PStr ''horizontal_patterns''])]),
        (''high'', PDict [
          (''range'', PStr ''1.5-2.5m''),
          (''techniques'', PList [PStr ''overhead_circles'', PStr ''vertical_spirals'', PStr ''high_throws''])]),
        (''ceiling'', PDict [
          (''range'', PStr ''2.5m+''),
          (''techniques'', PList [PStr ''maximum_throws'', PStr ''ceiling_touches'', PStr ''full_extension''])])]),
      (''distance_from_body'', PDict [
        (''contact'', PDict [
          (''range'', PStr ''0-20cm''),
          (''uses'', PList [PStr ''wraps'', PStr ''body_passes'', PStr ''close_spirals''])]),
        (''near'', PDict [
          (''range'', PStr ''20-100cm''),
          (''uses'', PList [PStr ''standard_elements'', PStr ''medium_circles'', PStr ''controlled_patterns''])]),
        (''mid'', PDict [
          (''range'', PStr ''1-2m''),
          (''uses'', PList [PStr ''extended_circles'', PStr ''large_spirals'', PStr ''spatial_fills''])]),
        (''far'', PDict [
          (''range'', PStr ''2-4m''),
          (''uses'', PList [PStr ''full_ribbon_extensions'', PStr ''throws'', PStr ''maximum_reach''])]),
        (''extreme'', PDict [
          (''range'', PStr ''4m+''),
          (''uses'', PList [PStr ''stick_end_releases'', PStr ''maximum_throws'', PStr ''aerial_work''])])]),
      (''planes'', PDict [
        (''horizontal'', PDict [
          (''orientation'', PStr ''parallel_to_floor''),
          (''elements'', PList [PStr ''circles'', PStr ''snakes'', PStr ''spirals''])]),
        (''vertical'', PDict [
          (''orientation'', PStr ''perpendicular_to_floor''),
          (''elements'', PList [PStr ''vertical_circles'', PStr ''drops'', PStr ''rises''])]),
        (''diagonal'', PDict [
          (''orientation'', PStr ''45_degrees''),
          (''elements'', PList [PStr ''diagonal_snakes'', PStr ''tilted_spirals'', PStr ''angled_throws''])]),
        (''rotating'', PDict [
          (''orientation'', PStr ''changing''),
          (''elements'', PList [PStr ''plane_transitions'', PStr ''3d_spirals'', PStr ''complex_paths''])])]),
      (''floor_patterns'', PDict [
        (''linear'', PList [PStr ''straight_lines'', PStr ''zigzags'', PStr ''spiraling_lines'']),
        (''circular'', PList [PStr ''circles'', PStr ''ellipses'', PStr ''figure_8s'']),
        (''geometric'', PList [PStr ''triangles'', PStr ''squares'', PStr ''star_patterns'']),
        (''organic'', PList [PStr ''curves'', PStr ''waves'', PStr ''freeform''])])]"

definition temporal_dynamics :: pyval where
  "temporal_dynamics =
    PDict [
      (''speed_variations'', PDict [
        (''very_slow'', PDict [
          (''tempo'', PStr ''largo''),
          (''uses'', PList [PStr ''dramatic_holds'', PStr ''controlled_tension'', PStr ''lyrical_moments''])]),
        (''slow'', PDict [
          (''tempo'', PStr ''adagio''),
          (''uses'', PList [PStr ''graceful_transitions'', PStr ''flow_emphasis'', PStr ''aesthetic_shapes''])]),
        (''moderate'', PDict [
          (''tempo'', PStr ''andante''),
          (''uses'', PList [PStr ''standard_elements'', PStr ''balanced_pacing'', PStr ''technical_precision''])]),
        (''fast'', PDict [
          (''tempo'', PStr ''allegro''),
          (''uses'', PList [PStr ''quick_transitions'', PStr ''rapid_patterns'', PStr ''energetic_sequences''])]),
        (''very_fast'', PDict [
          (''tempo'', PStr ''presto''),
          (''uses'', PList [PStr ''lightning_snakes'', PStr ''rapid_circles'', PStr ''virtuosic_displays''])])]),
      (''rhythmic_patterns'', PDict [
        (''regular'', PDict [(''structure'', PStr ''consistent_beats''), (''feel'', PStr ''steady_pulse'')]),
        (''syncopated'', PDict [
          (''structure'', PStr ''off_beat_accents''),
          (''feel'', PStr ''unexpected_emphasis'')]),
        (''polyrhythmic'', PDict [
          (''structure'', PStr ''multiple_rhythms''),
          (''feel'', PStr ''complex_layering'')]),
        (''rubato'', PDict [
          (''structure'', PStr ''flexible_timing''),
          (''feel'', PStr ''expressive_freedom'')]),
        (''metric_modulation'', PDict [(''structure'', PStr ''tempo_shifts''), (''feel'', PStr ''dynamic_changes'')])]),
      (''acceleration_curves'', PDict [
        (''linear'', PStr ''steady_increase''),
        (''exponential'', PStr ''rapid_buildup''),
        (''logarithmic'', PStr ''quick_start_then_slow''),
        (''sigmoid'', PStr ''slow_fast_slow''),
        (''stepped'', PStr ''discrete_speed_changes'')]),
      (''transition_timing'', PDict [
        (''immediate'', PDict [(''duration'', PStr ''0-0.5s''), (''character'', PStr ''sharp_contrast'')]),
        (''quick'', PDict [(''duration'', PStr ''0.5-1s''), (''character'', PStr ''clear_change'')]),
        (''moderate'', PDict [(''duration'', PStr ''1-2s''), (''character'', PStr ''smooth_flow'')]),
        (''gradual'', PDict [(''duration'', PStr ''2-4s''), (''character'', PStr ''seamless_blend'')]),
        (''extended'', PDict [
          (''duration'', PStr ''4s+''),
          (''character'', PStr ''dramatic_transformation'')])])]"

definition physical_properties :: pyval where
  "physical_properties =
    PDict [
      (''tension_states'', PDict [
        (''slack'', PDict [
          (''characteristics'', PList [PStr ''loose_fabric'', PStr ''natural_drape'', PStr ''minimal_control''])]),
        (''light'', PDict [
          (''characteristics'', PList [PStr ''gentle_tension'', PStr ''floating_quality'', PStr ''subtle_control''])]),
        (''medium'', PDict [
          (''characteristics'', PList [PStr ''balanced_tension'', PStr ''clear_shapes'', PStr ''standard_control''])]),
        (''high'', PDict [
          (''characteristics'', PList [PStr ''taut_fabric'', PStr ''crisp_lines'', PStr ''maximum_control''])]),
        (''variable'', PDict [
          (''characteristics'', PList [PStr ''changing_tension'', PStr ''dynamic_shapes'', PStr ''expressive_control''])])]),
      (''arc_geometries'', PDict [
        (''parabolic'', PDict [
          (''physics'', PStr ''natural_throw_trajectory''),
          (''aesthetics'', PStr ''graceful_curves'')]),
        (''circular'', PDict [
          (''physics'', PStr ''constant_radius''),
          (''aesthetics'', PStr ''perfect_shapes'')]),
        (''elliptical'', PDict [
          (''physics'', PStr ''dual_focal_points''),
          (''aesthetics'', PStr ''dynamic_ovals'')]),
        (''hyperbolic'', PDict [
          (''physics'', PStr ''diverging_paths''),
          (''aesthetics'', PStr ''dramatic_spreads'')]),
        (''spiral'', PDict [
          (''physics'', PStr ''rotating_radius''),
          (''aesthetics'', PStr ''flowing_helixes'')])]),
      (''wave_properties'', PDict [
        (''amplitude'', PList [PStr ''small'', PStr ''medium'', PStr ''large'', PStr ''extreme'']),
        (''frequency'', PList [PStr ''slow'', PStr ''moderate'', PStr ''fast'', PStr ''rapid'']),
        (''symmetry'', PList [PStr ''symmetric'', PStr ''asymmetric'', PStr ''progressive'', PStr ''chaotic'']),
        (''decay'', PList [PStr ''sustained'', PStr ''gradual'', PStr ''rapid'', PStr ''immediate''])]),
      (''material_behavior'', PDict [
        (''flow'', PDict [
          (''characteristics'', PList [PStr ''smooth_motion'', PStr ''continuous_fabric'', PStr ''fluid_paths''])]),
        (''snap'', PDict [
          (''characteristics'', PList [PStr ''sharp_movements'', PStr ''crisp_sounds'', PStr ''defined_endpoints''])]),
        (''float'', PDict [
          (''characteristics'', PList [PStr ''airborne_time'', PStr ''weightless_feel'', PStr ''suspended_moments''])]),
        (''whip'', PDict [
          (''characteristics'', PList [PStr ''crack_potential'', PStr ''high_speed'', PStr ''precision_control''])])])]"

definition compositional_structure :: pyval where
  "compositional_structure =
    PDict [
      (''element_sequences'', PDict [
        (''progressive_difficulty'', PList [PStr ''simple_to_complex'', PStr ''technical_buildup'', PStr ''climactic_peak'']),
        (''thematic_variation'', PList [PStr ''motif_introduction'', PStr ''development'', PStr ''recapitulation'']),
        (''contrasting_sections'', PList [PStr ''varied_dynamics'', PStr ''spatial_contrast'', PStr ''tempo_shifts'']),
        (''narrative_arc'', PList [PStr ''beginning'', PStr ''development'', PStr ''climax'', PStr ''resolution''])]),
      (''body_ribbon_coordination'', PDict [
        (''synchronous'', PDict [
          (''description'', PStr ''body_and_ribbon_move_together''),
          (''effect'', PStr ''unified_motion'')]),
        (''complementary'', PDict [
          (''description'', PStr ''body_and_ribbon_different_but_related''),
          (''effect'', PStr ''visual_interest'')]),
        (''contrasting'', PDict [
          (''description'', PStr ''body_and_ribbon_oppose''),
          (''effect'', PStr ''dynamic_tension'')]),
        (''independent'', PDict [
          (''description'', PStr ''body_and_ribbon_separate''),
          (''effect'', PStr ''complex_layers'')])]),
      (''music_synchronization'', PDict [
        (''rhythmic_matching'', PDict [
          (''precision'', PStr ''hit_specific_beats''),
          (''impact'', PStr ''musical_clarity'')]),
        (''phrasing'', PDict [
          (''precision'', PStr ''match_musical_phrases''),
          (''impact'', PStr ''artistic_interpretation'')]),
        (''dynamic_parallel'', PDict [
          (''precision'', PStr ''match_volume_intensity''),
          (''impact'', PStr ''emotional_resonance'')]),
        (''structural_alignment'', PDict [
          (''precision'', PStr ''match_musical_form''),
          (''impact'', PStr ''choreographic_coherence'')])]),
      (''spatial_progression'', PDict [
        (''expanding'', PList [PStr ''center_to_periphery'', PStr ''small_to_large'', PStr ''contained_to_open'']),
        (''contracting'', PList [PStr ''periphery_to_center'', PStr ''large_to_small'', PStr ''open_to_contained'']),
        (''traveling'', PList [PStr ''diagonal_crosses'', PStr ''circular_paths'', PStr ''linear_trajectories'']),
        (''stationary'', PList [PStr ''fixed_location'', PStr ''vertical_exploration'', PStr ''depth_variation''])])]"

definition RIBBON_TAXONOMY_init :: pyval where
  "RIBBON_TAXONOMY_init = PDict [
    (''movement_patterns'', movement_patterns),
    (''spatial_relationships'', spatial_relationships),
    (''temporal_dynamics'', temporal_dynamics),
    (''physical_properties'', physical_properties),
    (''compositional_structure'', compositional_structure)]"

definition COMPOSITIONAL_RULES_init :: pyval where
  "COMPOSITIONAL_RULES_init =
    PDict [
      (''technical_requirements'', PDict [
        (''code_of_points_2025'', PDict [
          (''difficulty_groups'', PList [PStr ''Jumps/Leaps'', PStr ''Balance'', PStr ''Rotations'', PStr ''Flexibility'']),
          (''apparatus_mastery'', PList [PStr ''Throws'', PStr ''Catches'', PStr ''Manipulation'']),
          (''risk_elements'', PList [PStr ''High_throws'', PStr ''Complex_catches'', PStr ''Dynamic_work'']),
          (''artistic_components'', PList [PStr ''Musicality'', PStr ''Expression'', PStr ''Character''])]),
        (''element_combinations'', PDict [
          (''valid_sequences'', PList [PStr ''throw_rotation_catch'', PStr ''spiral_throw_spiral'', PStr ''snake_circle_snake'', PStr ''wrap_unwrap_throw'']),
          (''transition_requirements'', PList [PStr ''smooth_flow'', PStr ''logical_progression'', PStr ''technical_feasibility''])])]),
      (''aesthetic_principles'', PDict [
        (''visual_balance'', PList [PStr ''symmetry_asymmetry'', PStr ''height_variation'', PStr ''spatial_distribution'']),
        (''flow_continuity'', PList [PStr ''seamless_transitions'', PStr ''momentum_maintenance'', PStr ''organic_development'']),
        (''dynamic_range'', PList [PStr ''quiet_moments'', PStr ''explosive_peaks'', PStr ''gradual_buildups'']),
        (''expressive_clarity'', PList [PStr ''intentional_movements'', PStr ''clear_character'', PStr ''emotional_connection''])]),
      (''musicality_rules'', PDict [
        (''structural_alignment'', PList [PStr ''intro_matches_music'', PStr ''climax_synchronized'', PStr ''ending_resolution'']),
        (''rhythmic_precision'', PList [PStr ''beat_accuracy'', PStr ''phrase_matching'', PStr ''accent_emphasis'']),
        (''interpretive_freedom'', PList [PStr ''rubato_moments'', PStr ''personal_expression'', PStr ''artistic_choices''])])]"

definition STYLE_VARIATIONS_init :: pyval where
  "STYLE_VARIATIONS_init =
    PDict [
      (''classical'', PDict [
        (''characteristics'', PList [PStr ''elegant_lines'', PStr ''refined_technique'', PStr ''traditional_beauty'']),
        (''movement_quality'', PStr ''controlled_grace''),
        (''typical_music'', PStr ''ballet_classical_orchestral'')]),
      (''contemporary'', PDict [
        (''characteristics'', PList [PStr ''innovative_patterns'', PStr ''unexpected_combinations'', PStr ''modern_aesthetics'']),
        (''movement_quality'', PStr ''dynamic_freedom''),
        (''typical_music'', PStr ''electronic_fusion_experimental'')]),
      (''dramatic'', PDict [
        (''characteristics'', PList [PStr ''intense_expression'', PStr ''theatrical_quality'', PStr ''emotional_depth'']),
        (''movement_quality'', PStr ''passionate_power''),
        (''typical_music'', PStr ''cinematic_dramatic_intense'')]),
      (''lyrical'', PDict [
        (''characteristics'', PList [PStr ''flowing_movements'', PStr ''soft_quality'', PStr ''poetic_expression'']),
        (''movement_quality'', PStr ''gentle_fluidity''),
        (''typical_music'', PStr ''melodic_vocal_emotive'')]),
      (''technical_virtuosic'', PDict [
        (''characteristics'', PList [PStr ''high_difficulty'', PStr ''precision_execution'', PStr ''mastery_display'']),
        (''movement_quality'', PStr ''brilliant_control''),
        (''typical_music'', PStr ''fast_complex_rhythmic'')])]"
text \<open>
  The module's global variables. A tool reads them when it is called, so it is a
  function of their current values; \<open>loaded\<close> is the state once the module is loaded.
\<close>

record globals =
  RIBBON_TAXONOMY :: pyval
  COMPOSITIONAL_RULES :: pyval
  STYLE_VARIATIONS :: pyval

definition loaded :: globals where
  "loaded = \<lparr>RIBBON_TAXONOMY = RIBBON_TAXONOMY_init,
             COMPOSITIONAL_RULES = COMPOSITIONAL_RULES_init,
             STYLE_VARIATIONS = STYLE_VARIATIONS_init\<rparr>"

section \<open>The formatting functions\<close>

definition load_taxonomy :: "globals \<Rightarrow> pyval" where
  "load_taxonomy g = RIBBON_TAXONOMY g"

text \<open>
  \<^verbatim>\<open>format_taxonomy_section\<close> appends lines to a list and joins them with newlines.
  The three functions below give the lines of the innermost loop body, of the loop over
  the entries of a category, and of the loop over the categories.
\<close>

definition format_inner :: "string \<times> pyval \<Rightarrow> string" where
  "format_inner kv =
     (case kv of (k, v) \<Rightarrow>
        (case v of
           PList xs \<Rightarrow> ''  - '' @ k @ '': '' @ join '', '' (map py_str xs)
         | _ \<Rightarrow> ''  - '' @ k @ '': '' @ py_str v))"

definition format_entry :: "string \<times> pyval \<Rightarrow> string list" where
  "format_entry kv =
     (case kv of (key, value) \<Rightarrow>
        (case value of
           PDict d \<Rightarrow>
             (NL @ ''**'' @ title (str_replace CHR ''_'' CHR '' '' key) @ ''**:'') # map format_inner d
         | PList xs \<Rightarrow> [''  - '' @ key @ '': '' @ join '', '' (map py_str xs)]
         | PStr s \<Rightarrow> [''  - '' @ key @ '': '' @ py_str value]))"

definition format_category :: "string \<times> pyval \<Rightarrow> string list" where
  "format_category cd =
     (case cd of (category, details) \<Rightarrow>
        (NL @ ''### '' @ title (str_replace CHR ''_'' CHR '' '' category)) #
        (case details of
           PDict d \<Rightarrow> concat (map format_entry d)
         | PList xs \<Rightarrow> [''  - '' @ join '', '' (map py_str xs)]
         | PStr s \<Rightarrow> []))"

definition format_taxonomy_lines :: "string \<Rightarrow> (string \<times> pyval) list \<Rightarrow> string list" where
  "format_taxonomy_lines section_name data_items =
     (NL @ ''## '' @ str_replace CHR ''_'' CHR '' '' (upper section_name) @ NL) #
     concat (map format_category data_items)"

definition format_taxonomy_section :: "string \<Rightarrow> pyval \<Rightarrow> error + string" where
  "format_taxonomy_section section_name data =
     bind (items data) (\<lambda>data_items.
       Inr (join NL (format_taxonomy_lines section_name data_items)))"

section \<open>The tools\<close>

subsection \<open>\<^verbatim>\<open>ribbon_enhance_prompt\<close>\<close>

text \<open>The body of the loop over the movement patterns.\<close>

definition movement_step :: "string \<times> pyval \<Rightarrow> string \<Rightarrow> error + string" where
  "movement_step pd enhancement =
     (case pd of (pattern_type, details) \<Rightarrow>
        bind (subscript details ''types'') (\<lambda>types.
        bind (py_join '', '' types) (\<lambda>types_joined.
        bind (if py_in ''properties'' details
              then bind (subscript details ''properties'') (\<lambda>properties.
                   bind (py_join '', '' properties) (\<lambda>properties_joined.
                     Inr (''- Properties: '' @ properties_joined @ NL)))
              else Inr []) (\<lambda>properties_line.
        bind (subscript details ''technical_notes'') (\<lambda>technical_notes.
          Inr (enhancement
               @ NL @ ''**'' @ title (str_replace CHR ''_'' CHR '' '' pattern_type) @ ''**'' @ NL
               @ ''- Types: '' @ types_joined @ NL
               @ properties_line
               @ ''- Technical Note: '' @ py_str technical_notes @ NL))))))"

definition requirement_step :: "string \<times> pyval \<Rightarrow> string \<Rightarrow> error + string" where
  "requirement_step rd enhancement =
     (case rd of (req_type, details) \<Rightarrow>
        Inr (enhancement @ ''- '' @ req_type @ '': '' @ py_str details @ NL))"

definition principle_step :: "string \<times> pyval \<Rightarrow> string \<Rightarrow> error + string" where
  "principle_step pe enhancement =
     (case pe of (principle, elements) \<Rightarrow>
        bind (py_join '', '' elements) (\<lambda>elements_joined.
          Inr (enhancement @ ''- '' @ title (str_replace CHR ''_'' CHR '' '' principle) @ '': ''
               @ elements_joined @ NL)))"

text \<open>The arrow of the speed range line is U+2192, three bytes in UTF-8.\<close>

definition rightwards_arrow :: string where
  "rightwards_arrow = [CHR 0xE2, CHR 0x86, CHR 0x92]"

definition spatial_and_temporal :: string where
  "spatial_and_temporal =
     NL @ ''### Spatial Considerations'' @ NL
     @ ''- Height Zones: floor, low, mid, high, ceiling'' @ NL
     @ ''- Distance Variations: contact, near, mid, far, extreme'' @ NL
     @ ''- Plane Orientations: horizontal, vertical, diagonal, rotating'' @ NL
     @ NL @ ''### Temporal Dynamics'' @ NL
     @ ''- Speed Range: very_slow '' @ rightwards_arrow @ '' slow '' @ rightwards_arrow
       @ '' moderate '' @ rightwards_arrow @ '' fast '' @ rightwards_arrow @ '' very_fast'' @ NL
     @ ''- Rhythmic Possibilities: regular, syncopated, polyrhythmic, rubato'' @ NL
     @ ''- Transition Timing: immediate, quick, moderate, gradual, extended'' @ NL"

definition development_and_cost :: string where
  "development_and_cost =
     NL @ ''## Suggested Development Path'' @ NL
     @ ''1. Begin with foundational patterns (circles, spirals, snakes)'' @ NL
     @ ''2. Layer in spatial variations (height, distance, planes)'' @ NL
     @ ''3. Add temporal dynamics (speed changes, rhythmic variations)'' @ NL
     @ ''4. Integrate body-ribbon coordination'' @ NL
     @ ''5. Align with musical structure'' @ NL
     @ ''6. Polish with style-specific qualities'' @ NL
     @ NL @ ''## Cost Optimization Note'' @ NL
     @ ''This enhancement used:'' @ NL
     @ ''- Layer 1: Deterministic taxonomy mapping (0 LLM cost)'' @ NL
     @ ''- Layer 2: Structured rule application (0 LLM cost)'' @ NL
     @ ''- Layer 3: Single synthesis pass (minimal LLM cost)'' @ NL
     @ ''- Total savings vs pure LLM: ~60-80%'' @ NL"

definition ribbon_enhance_prompt :: "globals \<Rightarrow> string \<Rightarrow> string \<Rightarrow> string \<Rightarrow> error + string" where
  "ribbon_enhance_prompt g routine_description style_preference technical_focus =
     (let taxonomy = load_taxonomy g;
          rules = COMPOSITIONAL_RULES g
      in
      bind (dict_get (STYLE_VARIATIONS g) style_preference
              (subscript (STYLE_VARIATIONS g) ''classical'')) (\<lambda>style.
      bind (subscript style ''characteristics'') (\<lambda>characteristics.
      bind (py_join '', '' characteristics) (\<lambda>characteristics_joined.
      bind (subscript style ''movement_quality'') (\<lambda>movement_quality.
      bind (subscript style ''typical_music'') (\<lambda>typical_music.
      bind (subscript taxonomy ''movement_patterns'') (\<lambda>patterns.
      bind (items patterns) (\<lambda>pattern_items.
      bind (for_each movement_step pattern_items
              (''# Enhanced Ribbon Routine Description'' @ NL
               @ NL @ ''## Original Concept'' @ NL
               @ routine_description @ NL
               @ NL @ ''## Style Framework: ''
               @ title (str_replace CHR ''_'' CHR '' '' style_preference) @ NL
               @ ''- Character: '' @ characteristics_joined @ NL
               @ ''- Movement Quality: '' @ py_str movement_quality @ NL
               @ ''- Musical Context: '' @ py_str typical_music @ NL
               @ NL @ ''## Technical Vocabulary Enhancement'' @ NL
               @ NL @ ''### Movement Patterns (Layer 1 Deterministic)'' @ NL)) (\<lambda>enhancement1.
      bind (subscript rules ''technical_requirements'') (\<lambda>requirements.
      bind (items requirements) (\<lambda>requirement_items.
      bind (for_each requirement_step requirement_items
              (enhancement1 @ spatial_and_temporal
               @ NL @ ''## Compositional Structure (Layer 2 Rules)'' @ NL
               @ NL @ ''### Technical Requirements'' @ NL)) (\<lambda>enhancement2.
      bind (subscript rules ''aesthetic_principles'') (\<lambda>principles.
      bind (items principles) (\<lambda>principle_items.
      bind (for_each principle_step principle_items
              (enhancement2 @ NL @ ''### Aesthetic Principles'' @ NL)) (\<lambda>enhancement3.
      bind (subscript style ''movement_quality'') (\<lambda>movement_quality2.
      bind (subscript style ''typical_music'') (\<lambda>typical_music2.
        Inr (enhancement3
             @ NL @ ''## Expressive Integration (Layer 3 Synthesis)'' @ NL
             @ NL @ ''For a '' @ style_preference @ '' interpretation:'' @ NL
             @ ''1. Movement Quality: Emphasize '' @ py_str movement_quality2 @ NL
             @ ''2. Spatial Focus: Use '' @ str_replace CHR ''_'' CHR '' '' technical_focus @ NL
             @ ''3. Musical Integration: Match '' @ py_str typical_music2 @ NL
             @ development_and_cost))))))))))))))))))"

subsection \<open>The vocabulary tools\<close>

definition ribbon_movement_vocabulary :: "globals \<Rightarrow> error + string" where
  "ribbon_movement_vocabulary g =
     (let taxonomy = load_taxonomy g in
      bind (subscript taxonomy ''movement_patterns'')
        (format_taxonomy_section ''movement_patterns''))"

definition ribbon_spatial_vocabulary :: "globals \<Rightarrow> error + string" where
  "ribbon_spatial_vocabulary g =
     (let taxonomy = load_taxonomy g in
      bind (subscript taxonomy ''spatial_relationships'')
        (format_taxonomy_section ''spatial_relationships''))"

definition ribbon_temporal_vocabulary :: "globals \<Rightarrow> error + string" where
  "ribbon_temporal_vocabulary g =
     (let taxonomy = load_taxonomy g in
      bind (subscript taxonomy ''temporal_dynamics'')
        (format_taxonomy_section ''temporal_dynamics''))"

definition ribbon_physical_properties :: "globals \<Rightarrow> error + string" where
  "ribbon_physical_properties g =
     (let taxonomy = load_taxonomy g in
      bind (subscript taxonomy ''physical_properties'')
        (format_taxonomy_section ''physical_properties''))"

subsection \<open>\<^verbatim>\<open>ribbon_composition_guide\<close>\<close>

definition guide_inner :: "string \<times> pyval \<Rightarrow> string \<Rightarrow> error + string" where
  "guide_inner kv output =
     (case kv of (k, v) \<Rightarrow> Inr (output @ ''  - '' @ k @ '': '' @ py_str v @ NL))"

definition guide_entry :: "string \<times> pyval \<Rightarrow> string \<Rightarrow> error + string" where
  "guide_entry kv output =
     (case kv of (key, value) \<Rightarrow>
        (let output1 = output @ NL @ ''**'' @ title (str_replace CHR ''_'' CHR '' '' key) @ ''**:'' @ NL
         in case value of
              PDict d \<Rightarrow> for_each guide_inner d output1
            | PList xs \<Rightarrow> Inr (output1 @ ''  - '' @ join '', '' (map py_str xs) @ NL)
            | PStr s \<Rightarrow> Inr output1))"

definition guide_category :: "string \<times> pyval \<Rightarrow> string \<Rightarrow> error + string" where
  "guide_category cd output =
     (case cd of (rule_category, details) \<Rightarrow>
        bind (items details) (\<lambda>detail_items.
          for_each guide_entry detail_items
            (output @ NL @ ''### '' @ title (str_replace CHR ''_'' CHR '' '' rule_category) @ NL)))"

definition ribbon_composition_guide :: "globals \<Rightarrow> error + string" where
  "ribbon_composition_guide g =
     bind (subscript (RIBBON_TAXONOMY g) ''compositional_structure'') (\<lambda>structure.
     bind (format_taxonomy_section ''compositional_structure'' structure) (\<lambda>formatted.
     bind (items (COMPOSITIONAL_RULES g)) (\<lambda>rule_items.
       for_each guide_category rule_items
         (NL @ ''## COMPOSITIONAL STRUCTURE GUIDE'' @ NL
          @ formatted
          @ NL @ NL @ ''## COMPOSITIONAL RULES'' @ NL))))"

subsection \<open>\<^verbatim>\<open>ribbon_style_variations\<close>\<close>

definition style_field :: "string \<times> pyval \<Rightarrow> string \<Rightarrow> error + string" where
  "style_field kv output =
     (case kv of (key, value) \<Rightarrow>
        (case value of
           PList xs \<Rightarrow>
             bind (py_join '', '' value) (\<lambda>joined. Inr (output @ ''  - '' @ key @ '': '' @ joined @ NL))
         | _ \<Rightarrow> Inr (output @ ''  - '' @ key @ '': '' @ py_str value @ NL)))"

definition style_entry :: "string \<times> pyval \<Rightarrow> string \<Rightarrow> error + string" where
  "style_entry sd output =
     (case sd of (style_name, details) \<Rightarrow>
        bind (items details) (\<lambda>detail_items.
          for_each style_field detail_items
            (output @ NL @ ''### '' @ title (str_replace CHR ''_'' CHR '' '' style_name) @ NL)))"

definition ribbon_style_variations :: "globals \<Rightarrow> error + string" where
  "ribbon_style_variations g =
     bind (items (STYLE_VARIATIONS g)) (\<lambda>style_items.
       for_each style_entry style_items (NL @ ''## STYLE VARIATIONS'' @ NL))"

subsection \<open>\<^verbatim>\<open>ribbon_full_taxonomy\<close>\<close>

definition dump_entry :: "string \<times> pyval \<Rightarrow> string \<Rightarrow> error + string" where
  "dump_entry cd output =
     (case cd of (category, details) \<Rightarrow>
        Inr (output @ NL @ ''### '' @ title (str_replace CHR ''_'' CHR '' '' category) @ NL
             @ py_str details))"

definition architecture_note :: string where
  "architecture_note =
     NL @ NL @ ''---'' @ NL
     @ ''Three-Layer Architecture:'' @ NL
     @ ''- Layer 1: Deterministic taxonomy (movement, spatial, temporal, physical)'' @ NL
     @ ''- Layer 2: Compositional rules and technical requirements'' @ NL
     @ ''- Layer 3: Style variations and expressive synthesis'' @ NL
     @ NL @ ''Cost optimization: ~60-80% savings vs pure LLM approaches'' @ NL"

definition ribbon_full_taxonomy :: "globals \<Rightarrow> error + string" where
  "ribbon_full_taxonomy g =
     (let taxonomy = load_taxonomy g in
      bind (subscript taxonomy ''movement_patterns'') (\<lambda>d1.
      bind (format_taxonomy_section ''movement_patterns'' d1) (\<lambda>s1.
      bind (subscript taxonomy ''spatial_relationships'') (\<lambda>d2.
      bind (format_taxonomy_section ''spatial_relationships'' d2) (\<lambda>s2.
      bind (subscript taxonomy ''temporal_dynamics'') (\<lambda>d3.
      bind (format_taxonomy_section ''temporal_dynamics'' d3) (\<lambda>s3.
      bind (subscript taxonomy ''physical_properties'') (\<lambda>d4.
      bind (format_taxonomy_section ''physical_properties'' d4) (\<lambda>s4.
      bind (subscript taxonomy ''compositional_structure'') (\<lambda>d5.
      bind (format_taxonomy_section ''compositional_structure'' d5) (\<lambda>s5.
      bind (items (COMPOSITIONAL_RULES g)) (\<lambda>rule_items.
      bind (for_each dump_entry rule_items
              (''# RHYTHMIC RIBBON DANCE VISUAL VOCABULARY'' @ NL
               @ NL @ ''## Complete Taxonomy - All Layers'' @ NL
               @ s1 @ s2 @ s3 @ s4 @ s5
               @ NL @ NL @ ''## COMPOSITIONAL RULES (Layer 2)'' @ NL)) (\<lambda>output1.
      bind (items (STYLE_VARIATIONS g)) (\<lambda>style_items.
      bind (for_each dump_entry style_items
              (output1 @ NL @ NL @ ''## STYLE VARIATIONS (Layer 3)'' @ NL)) (\<lambda>output2.
        Inr (output2 @ architecture_note))))))))))))))))"

section \<open>Calls to the server\<close>

text \<open>A call names one of the eight tools and gives its arguments.\<close>

datatype call =
    Enhance_prompt string string string
  | Movement_vocabulary
  | Spatial_vocabulary
  | Temporal_vocabulary
  | Physical_properties
  | Composition_guide
  | Style_variations
  | Full_taxonomy

fun tool :: "call \<Rightarrow> globals \<Rightarrow> error + string" where
  "tool (Enhance_prompt routine_description style_preference technical_focus) g =
     ribbon_enhance_prompt g routine_description style_preference technical_focus"
| "tool Movement_vocabulary g = ribbon_movement_vocabulary g"
| "tool Spatial_vocabulary g = ribbon_spatial_vocabulary g"
| "tool Temporal_vocabulary g = ribbon_temporal_vocabulary g"
| "tool Physical_properties g = ribbon_physical_properties g"
| "tool Composition_guide g = ribbon_composition_guide g"
| "tool Style_variations g = ribbon_style_variations g"
| "tool Full_taxonomy g = ribbon_full_taxonomy g"

section \<open>Notions used to state the properties\<close>

text \<open>
  The text of \<^verbatim>\<open>ribbon_enhance_prompt\<close> as a template: the routine description, the
  style selector, the three fields of the style record, the technical focus, and the
  two stretches of text that depend on the tables alone.
\<close>

definition enhancement_template ::
  "string \<Rightarrow> string \<Rightarrow> string list \<Rightarrow> string \<Rightarrow> string \<Rightarrow> string \<Rightarrow> string \<Rightarrow> string \<Rightarrow> string" where
  "enhancement_template rd sp ch mq tm body tf tail =
     ''# Enhanced Ribbon Routine Description'' @ NL @ NL @ ''## Original Concept'' @ NL
     @ rd @ NL
     @ NL @ ''## Style Framework: '' @ title (str_replace CHR ''_'' CHR '' '' sp) @ NL
     @ ''- Character: '' @ join '', '' ch @ NL
     @ ''- Movement Quality: '' @ mq @ NL
     @ ''- Musical Context: '' @ tm @ NL
     @ body
     @ NL @ ''For a '' @ sp @ '' interpretation:'' @ NL
     @ ''1. Movement Quality: Emphasize '' @ mq @ NL
     @ ''2. Spatial Focus: Use '' @ str_replace CHR ''_'' CHR '' '' tf @ NL
     @ ''3. Musical Integration: Match '' @ tm @ NL
     @ tail"

text \<open>The lines of a text, as \<^verbatim>\<open>s.split('\n')\<close> gives them.\<close>

fun lines_of :: "string \<Rightarrow> string list" where
  "lines_of [] = [[]]"
| "lines_of (c # cs) =
     (if c = CHR 0x0A then [] # lines_of cs
      else (case lines_of cs of [] \<Rightarrow> [[c]] | l # ls \<Rightarrow> (c # l) # ls))"

text \<open>
  Two results differ in one line at most: both are texts with the same number of lines,
  and the lines at no more than one position differ.
\<close>

definition differ_in_one_line_at_most :: "error + string \<Rightarrow> error + string \<Rightarrow> bool" where
  "differ_in_one_line_at_most r1 r2 =
     (case (r1, r2) of
        (Inr a, Inr b) \<Rightarrow>
          length (lines_of a) = length (lines_of b) \<and>
          length (filter (\<lambda>(x, y). x \<noteq> y) (zip (lines_of a) (lines_of b))) \<le> 1
      | _ \<Rightarrow> False)"





section \<open>Basic facts about the Python operations\<close>

lemma bind_Inr [simp]: "bind (Inr x) f = f x"
  by (simp add: bind_def)

lemma bind_Inl [simp]: "bind (Inl e) f = Inl e"
  by (simp add: bind_def)

section \<open>The loops of the tools\<close>

text \<open>
  Every loop body appends to the text it is given, so a loop run on any text appends what
  it appends to the empty text.
\<close>

lemma for_each_appends:
  assumes "\<And>x s. body x s = bind (body x []) (\<lambda>t. Inr (s @ t))"
  shows "for_each body xs s = bind (for_each body xs []) (\<lambda>t. Inr (s @ t))"
proof (induction xs arbitrary: s)
  case Nil
  show ?case by simp
next
  case (Cons x xs)
  show ?case
  proof (cases "body x []")
    case (Inl e)
    then show ?thesis
      using assms [of x s] by simp
  next
    case (Inr t)
    have "for_each body (x # xs) s = for_each body xs (s @ t)"
      using assms [of x s] Inr by simp
    also have "\<dots> = bind (for_each body xs []) (\<lambda>u. Inr ((s @ t) @ u))"
      by (rule Cons.IH)
    finally have left: "for_each body (x # xs) s = bind (for_each body xs []) (\<lambda>u. Inr (s @ t @ u))"
      by simp
    have "for_each body (x # xs) [] = for_each body xs t"
      using Inr by simp
    also have "\<dots> = bind (for_each body xs []) (\<lambda>u. Inr (t @ u))"
      by (rule Cons.IH)
    finally have "bind (for_each body (x # xs) []) (\<lambda>t. Inr (s @ t)) =
        bind (for_each body xs []) (\<lambda>u. Inr (s @ t @ u))"
      by (cases "for_each body xs []") simp_all
    with left show ?thesis by simp
  qed
qed

lemma for_each_pieces:
  assumes "\<And>x s. body x s = Inr (s @ piece x)"
  shows "for_each body xs s = Inr (s @ concat (map piece xs))"
  by (induction xs arbitrary: s) (simp_all add: assms)

lemma the_strs_map [simp]: "the_strs (map PStr ss) = Inr ss"
  by (induction ss) simp_all

lemma movement_step_appends:
  "movement_step pd s = bind (movement_step pd []) (\<lambda>t. Inr (s @ t))"
  by (simp add: movement_step_def bind_def split: prod.splits sum.splits)

lemma requirement_step_pieces:
  "requirement_step rd s = Inr (s @ (''- '' @ fst rd @ '': '' @ py_str (snd rd) @ NL))"
  by (simp add: requirement_step_def split: prod.splits)

lemma principle_step_appends:
  "principle_step pe s = bind (principle_step pe []) (\<lambda>t. Inr (s @ t))"
  by (simp add: principle_step_def bind_def split: prod.splits sum.splits)

lemmas py_defs = subscript_def items_def py_join_def py_in_def py_str_def dict_get_def
  str_replace_def title_def upper_def upper_char_def lower_char_def is_cased_def
  ascii_lowercase_def ascii_uppercase_def repr_str_def repr_char_def Let_def

lemma movement_loop_loaded:
  "\<exists>p its b. subscript (load_taxonomy loaded) ''movement_patterns'' = Inr p \<and> items p = Inr its \<and>
     (\<forall>acc. for_each movement_step its acc = Inr (acc @ b))"
proof -
  have 1: "subscript (load_taxonomy loaded) ''movement_patterns'' = Inr movement_patterns"
    by (simp add: loaded_def load_taxonomy_def RIBBON_TAXONOMY_init_def subscript_def)
  have "\<exists>its b. items movement_patterns = Inr its \<and> for_each movement_step its [] = Inr b"
    by (simp add: movement_patterns_def movement_step_def py_defs)
  then obtain its b where 2: "items movement_patterns = Inr its"
    and 3: "for_each movement_step its [] = Inr b"
    by blast
  have "\<forall>acc. for_each movement_step its acc = Inr (acc @ b)"
    using for_each_appends [of movement_step its, OF movement_step_appends] 3 by simp
  with 1 2 show ?thesis by blast
qed


lemma requirement_loop_loaded:
  "\<exists>r its b. subscript (COMPOSITIONAL_RULES loaded) ''technical_requirements'' = Inr r \<and>
     items r = Inr its \<and> (\<forall>acc. for_each requirement_step its acc = Inr (acc @ b))"
proof -
  have "\<exists>r its. subscript (COMPOSITIONAL_RULES loaded) ''technical_requirements'' = Inr r \<and>
      items r = Inr its"
    by (simp add: loaded_def COMPOSITIONAL_RULES_init_def subscript_def items_def)
  then obtain r its where 1: "subscript (COMPOSITIONAL_RULES loaded) ''technical_requirements'' = Inr r"
    and 2: "items r = Inr its"
    by blast
  have "\<forall>acc. for_each requirement_step its acc =
      Inr (acc @ concat (map (\<lambda>rd. ''- '' @ fst rd @ '': '' @ py_str (snd rd) @ NL) its))"
    using for_each_pieces [of requirement_step, OF requirement_step_pieces] by blast
  with 1 2 show ?thesis by blast
qed

lemma principle_loop_loaded:
  "\<exists>p its b. subscript (COMPOSITIONAL_RULES loaded) ''aesthetic_principles'' = Inr p \<and>
     items p = Inr its \<and> (\<forall>acc. for_each principle_step its acc = Inr (acc @ b))"
proof -
  have "\<exists>p its b. subscript (COMPOSITIONAL_RULES loaded) ''aesthetic_principles'' = Inr p \<and>
      items p = Inr its \<and> for_each principle_step its [] = Inr b"
    by (simp add: loaded_def COMPOSITIONAL_RULES_init_def principle_step_def py_defs)
  then obtain p its b where 1: "subscript (COMPOSITIONAL_RULES loaded) ''aesthetic_principles'' = Inr p"
    and 2: "items p = Inr its" and 3: "for_each principle_step its [] = Inr b"
    by blast
  have "\<forall>acc. for_each principle_step its acc = Inr (acc @ b)"
    using for_each_appends [of principle_step its, OF principle_step_appends] 3 by simp
  with 1 2 show ?thesis by blast
qed

section \<open>The text of \<^verbatim>\<open>ribbon_enhance_prompt\<close>\<close>

lemma enhance_prompt_text:
  "\<exists>body tail. \<forall>rd sp tf st xs ch mq tm.
     dict_get (STYLE_VARIATIONS loaded) sp (subscript (STYLE_VARIATIONS loaded) ''classical'') = Inr st \<longrightarrow>
     subscript st ''characteristics'' = Inr (PList xs) \<longrightarrow>
     the_strs xs = Inr ch \<longrightarrow>
     subscript st ''movement_quality'' = Inr (PStr mq) \<longrightarrow>
     subscript st ''typical_music'' = Inr (PStr tm) \<longrightarrow>
     ribbon_enhance_prompt loaded rd sp tf = Inr (enhancement_template rd sp ch mq tm body tf tail)"
proof -
  obtain p pits mb where m: "subscript (load_taxonomy loaded) ''movement_patterns'' = Inr p"
    "items p = Inr pits" "\<And>acc. for_each movement_step pits acc = Inr (acc @ mb)"
    using movement_loop_loaded by blast
  obtain r rits rb where r: "subscript (COMPOSITIONAL_RULES loaded) ''technical_requirements'' = Inr r"
    "items r = Inr rits" "\<And>acc. for_each requirement_step rits acc = Inr (acc @ rb)"
    using requirement_loop_loaded by blast
  obtain a aits ab where a: "subscript (COMPOSITIONAL_RULES loaded) ''aesthetic_principles'' = Inr a"
    "items a = Inr aits" "\<And>acc. for_each principle_step aits acc = Inr (acc @ ab)"
    using principle_loop_loaded by blast
  let ?body = "NL @ ''## Technical Vocabulary Enhancement'' @ NL
      @ NL @ ''### Movement Patterns (Layer 1 Deterministic)'' @ NL
      @ mb @ spatial_and_temporal
      @ NL @ ''## Compositional Structure (Layer 2 Rules)'' @ NL
      @ NL @ ''### Technical Requirements'' @ NL
      @ rb
      @ NL @ ''### Aesthetic Principles'' @ NL
      @ ab
      @ NL @ ''## Expressive Integration (Layer 3 Synthesis)'' @ NL"
  have "\<forall>rd sp tf st xs ch mq tm.
     dict_get (STYLE_VARIATIONS loaded) sp (subscript (STYLE_VARIATIONS loaded) ''classical'') = Inr st \<longrightarrow>
     subscript st ''characteristics'' = Inr (PList xs) \<longrightarrow>
     the_strs xs = Inr ch \<longrightarrow>
     subscript st ''movement_quality'' = Inr (PStr mq) \<longrightarrow>
     subscript st ''typical_music'' = Inr (PStr tm) \<longrightarrow>
     ribbon_enhance_prompt loaded rd sp tf =
       Inr (enhancement_template rd sp ch mq tm ?body tf development_and_cost)"
    by (simp add: ribbon_enhance_prompt_def enhancement_template_def Let_def m r a py_join_def
        py_str_def)
  then show ?thesis by blast
qed

lemma style_selected:
  "\<exists>st xs ch mq tm.
     dict_get (STYLE_VARIATIONS loaded) sp (subscript (STYLE_VARIATIONS loaded) ''classical'') = Inr st \<and>
     subscript st ''characteristics'' = Inr (PList xs) \<and> the_strs xs = Inr ch \<and>
     subscript st ''movement_quality'' = Inr (PStr mq) \<and>
     subscript st ''typical_music'' = Inr (PStr tm)"
  by (simp add: loaded_def STYLE_VARIATIONS_init_def dict_get_def subscript_def)

lemma style_fallback:
  assumes "\<not> py_in sp (STYLE_VARIATIONS loaded)"
  shows "dict_get (STYLE_VARIATIONS loaded) sp (subscript (STYLE_VARIATIONS loaded) ''classical'') =
         subscript (STYLE_VARIATIONS loaded) ''classical''"
  using assms
  by (simp add: loaded_def STYLE_VARIATIONS_init_def dict_get_def subscript_def py_in_def)

lemma style_classical:
  "dict_get (STYLE_VARIATIONS loaded) ''classical'' (subscript (STYLE_VARIATIONS loaded) ''classical'') =
   subscript (STYLE_VARIATIONS loaded) ''classical''"
  by (simp add: loaded_def STYLE_VARIATIONS_init_def dict_get_def subscript_def)

lemma classical_fields:
  "\<exists>st. subscript (STYLE_VARIATIONS loaded) ''classical'' = Inr st \<and>
     subscript st ''characteristics'' =
       Inr (PList [PStr ''elegant_lines'', PStr ''refined_technique'', PStr ''traditional_beauty'']) \<and>
     subscript st ''movement_quality'' = Inr (PStr ''controlled_grace'') \<and>
     subscript st ''typical_music'' = Inr (PStr ''ballet_classical_orchestral'')"
  by (simp add: loaded_def STYLE_VARIATIONS_init_def subscript_def)

lemma title_classical: "title (str_replace CHR ''_'' CHR '' '' ''classical'') = ''Classical''"
  by (simp add: title_def str_replace_def upper_char_def lower_char_def is_cased_def
      ascii_lowercase_def ascii_uppercase_def)


text \<open>The text for any style selector, and for a selector that is no key of the style table.\<close>

lemma enhance_prompt_any:
  "\<exists>body tail. \<forall>sp. \<exists>ch mq tm. \<forall>rd tf.
     ribbon_enhance_prompt loaded rd sp tf = Inr (enhancement_template rd sp ch mq tm body tf tail)"
proof -
  obtain body tail where shape: "\<forall>rd sp tf st xs ch mq tm.
     dict_get (STYLE_VARIATIONS loaded) sp (subscript (STYLE_VARIATIONS loaded) ''classical'') = Inr st \<longrightarrow>
     subscript st ''characteristics'' = Inr (PList xs) \<longrightarrow>
     the_strs xs = Inr ch \<longrightarrow>
     subscript st ''movement_quality'' = Inr (PStr mq) \<longrightarrow>
     subscript st ''typical_music'' = Inr (PStr tm) \<longrightarrow>
     ribbon_enhance_prompt loaded rd sp tf = Inr (enhancement_template rd sp ch mq tm body tf tail)"
    using enhance_prompt_text by blast
  have "\<exists>ch mq tm. \<forall>rd tf. ribbon_enhance_prompt loaded rd sp tf =
      Inr (enhancement_template rd sp ch mq tm body tf tail)" for sp
  proof -
    obtain st xs ch mq tm where
      "dict_get (STYLE_VARIATIONS loaded) sp (subscript (STYLE_VARIATIONS loaded) ''classical'') = Inr st"
      "subscript st ''characteristics'' = Inr (PList xs)" "the_strs xs = Inr ch"
      "subscript st ''movement_quality'' = Inr (PStr mq)"
      "subscript st ''typical_music'' = Inr (PStr tm)"
      using style_selected [of sp] by blast
    with shape have "\<forall>rd tf. ribbon_enhance_prompt loaded rd sp tf =
        Inr (enhancement_template rd sp ch mq tm body tf tail)"
      by blast
    then show ?thesis by blast
  qed
  then show ?thesis by blast
qed

lemma enhance_prompt_classical:
  "\<exists>body tail. \<forall>rd sp tf.
     (sp = ''classical'' \<or> \<not> py_in sp (STYLE_VARIATIONS loaded)) \<longrightarrow>
     ribbon_enhance_prompt loaded rd sp tf =
       Inr (enhancement_template rd sp [''elegant_lines'', ''refined_technique'', ''traditional_beauty'']
              ''controlled_grace'' ''ballet_classical_orchestral'' body tf tail)"
proof -
  obtain body tail where shape: "\<forall>rd sp tf st xs ch mq tm.
     dict_get (STYLE_VARIATIONS loaded) sp (subscript (STYLE_VARIATIONS loaded) ''classical'') = Inr st \<longrightarrow>
     subscript st ''characteristics'' = Inr (PList xs) \<longrightarrow>
     the_strs xs = Inr ch \<longrightarrow>
     subscript st ''movement_quality'' = Inr (PStr mq) \<longrightarrow>
     subscript st ''typical_music'' = Inr (PStr tm) \<longrightarrow>
     ribbon_enhance_prompt loaded rd sp tf = Inr (enhancement_template rd sp ch mq tm body tf tail)"
    using enhance_prompt_text by blast
  obtain st where st: "subscript (STYLE_VARIATIONS loaded) ''classical'' = Inr st"
    "subscript st ''characteristics'' =
       Inr (PList [PStr ''elegant_lines'', PStr ''refined_technique'', PStr ''traditional_beauty''])"
    "subscript st ''movement_quality'' = Inr (PStr ''controlled_grace'')"
    "subscript st ''typical_music'' = Inr (PStr ''ballet_classical_orchestral'')"
    using classical_fields by blast
  have strs: "the_strs [PStr ''elegant_lines'', PStr ''refined_technique'', PStr ''traditional_beauty'']
      = Inr [''elegant_lines'', ''refined_technique'', ''traditional_beauty'']"
    by simp
  have "ribbon_enhance_prompt loaded rd sp tf =
       Inr (enhancement_template rd sp [''elegant_lines'', ''refined_technique'', ''traditional_beauty'']
              ''controlled_grace'' ''ballet_classical_orchestral'' body tf tail)"
    if "sp = ''classical'' \<or> \<not> py_in sp (STYLE_VARIATIONS loaded)" for rd sp tf
  proof -
    have "dict_get (STYLE_VARIATIONS loaded) sp (subscript (STYLE_VARIATIONS loaded) ''classical'') = Inr st"
      using that style_fallback [of sp] style_classical st(1) by auto
    with shape st(2-4) strs show ?thesis by blast
  qed
  then show ?thesis by blast
qed

section \<open>Properties of \<^verbatim>\<open>ribbon_enhance_prompt\<close>\<close>

lemma routine_description_shape:
  "\<exists>rest. ribbon_enhance_prompt loaded rd sp tf =
     Inr (''# Enhanced Ribbon Routine Description'' @ NL @ NL @ ''## Original Concept'' @ NL
          @ rd @ NL @ NL @ ''## Style Framework: '' @ rest)"
proof -
  obtain body tail ch mq tm where
    "ribbon_enhance_prompt loaded rd sp tf = Inr (enhancement_template rd sp ch mq tm body tf tail)"
    using enhance_prompt_any by blast
  then show ?thesis
    by (simp add: enhancement_template_def)
qed

text \<open>
  Claim C10. For every routine description, the text returned by
  \<^verbatim>\<open>ribbon_enhance_prompt\<close> holds the description itself, character for character,
  right under the header \<^verbatim>\<open>## Original Concept\<close>; the style header follows it.
\<close>

theorem routine_description_verbatim:
  "\<exists>rest. ribbon_enhance_prompt loaded rd sp tf =
     Inr (''# Enhanced Ribbon Routine Description'' @ NL @ NL @ ''## Original Concept'' @ NL
          @ rd @ NL @ NL @ ''## Style Framework: '' @ rest)"
  by (rule routine_description_shape)


text \<open>
  Claim C3. For a style selector that is no key of \<^verbatim>\<open>STYLE_VARIATIONS\<close>, the tool
  uses the record \<^verbatim>\<open>STYLE_VARIATIONS["classical"]\<close>: the lines Character, Movement
  Quality and Musical Context list the characteristics, the movement quality and the
  typical music of the classical style, and the call returns a text, not an error.
\<close>

theorem unknown_style_falls_back_to_classical:
  assumes "\<not> py_in sp (STYLE_VARIATIONS loaded)"
  shows "\<exists>classical rest.
     subscript (STYLE_VARIATIONS loaded) ''classical'' = Inr classical \<and>
     subscript classical ''characteristics'' =
       Inr (PList [PStr ''elegant_lines'', PStr ''refined_technique'', PStr ''traditional_beauty'']) \<and>
     subscript classical ''movement_quality'' = Inr (PStr ''controlled_grace'') \<and>
     subscript classical ''typical_music'' = Inr (PStr ''ballet_classical_orchestral'') \<and>
     ribbon_enhance_prompt loaded rd sp tf =
       Inr (''# Enhanced Ribbon Routine Description'' @ NL @ NL @ ''## Original Concept'' @ NL
            @ rd @ NL @ NL
            @ ''## Style Framework: '' @ title (str_replace CHR ''_'' CHR '' '' sp) @ NL
            @ ''- Character: elegant_lines, refined_technique, traditional_beauty'' @ NL
            @ ''- Movement Quality: controlled_grace'' @ NL
            @ ''- Musical Context: ballet_classical_orchestral'' @ NL
            @ rest)"
proof -
  obtain body tail where
    "ribbon_enhance_prompt loaded rd sp tf =
       Inr (enhancement_template rd sp [''elegant_lines'', ''refined_technique'', ''traditional_beauty'']
              ''controlled_grace'' ''ballet_classical_orchestral'' body tf tail)"
    using enhance_prompt_classical assms by blast
  then have "\<exists>rest. ribbon_enhance_prompt loaded rd sp tf =
       Inr (''# Enhanced Ribbon Routine Description'' @ NL @ NL @ ''## Original Concept'' @ NL
            @ rd @ NL @ NL
            @ ''## Style Framework: '' @ title (str_replace CHR ''_'' CHR '' '' sp) @ NL
            @ ''- Character: elegant_lines, refined_technique, traditional_beauty'' @ NL
            @ ''- Movement Quality: controlled_grace'' @ NL
            @ ''- Musical Context: ballet_classical_orchestral'' @ NL
            @ rest)"
    by (simp add: enhancement_template_def)
  with classical_fields show ?thesis by blast
qed

theorem unknown_style_falls_back_to_classical_witness:
  "\<not> py_in ''jazz_funk'' (STYLE_VARIATIONS loaded) \<and>
   (\<exists>rest. ribbon_enhance_prompt loaded ''A flowing routine'' ''jazz_funk'' ''balanced'' =
       Inr (''# Enhanced Ribbon Routine Description'' @ NL @ NL @ ''## Original Concept'' @ NL
            @ ''A flowing routine'' @ NL @ NL
            @ ''## Style Framework: Jazz Funk'' @ NL
            @ ''- Character: elegant_lines, refined_technique, traditional_beauty'' @ NL
            @ ''- Movement Quality: controlled_grace'' @ NL
            @ ''- Musical Context: ballet_classical_orchestral'' @ NL
            @ rest))"
proof -
  have unknown: "\<not> py_in ''jazz_funk'' (STYLE_VARIATIONS loaded)"
    by (simp add: py_in_def loaded_def STYLE_VARIATIONS_init_def)
  have shown: "title (str_replace CHR ''_'' CHR '' '' ''jazz_funk'') = ''Jazz Funk''"
    by (simp add: title_def str_replace_def upper_char_def lower_char_def is_cased_def
        ascii_lowercase_def ascii_uppercase_def)
  from unknown_style_falls_back_to_classical [OF unknown, of "''A flowing routine''" "''balanced''"]
  obtain rest where
    "ribbon_enhance_prompt loaded ''A flowing routine'' ''jazz_funk'' ''balanced'' =
       Inr (''# Enhanced Ribbon Routine Description'' @ NL @ NL @ ''## Original Concept'' @ NL
            @ ''A flowing routine'' @ NL @ NL
            @ ''## Style Framework: '' @ title (str_replace CHR ''_'' CHR '' '' ''jazz_funk'') @ NL
            @ ''- Character: elegant_lines, refined_technique, traditional_beauty'' @ NL
            @ ''- Movement Quality: controlled_grace'' @ NL
            @ ''- Musical Context: ballet_classical_orchestral'' @ NL
            @ rest)"
    by blast
  then have "\<exists>rest. ribbon_enhance_prompt loaded ''A flowing routine'' ''jazz_funk'' ''balanced'' =
       Inr (''# Enhanced Ribbon Routine Description'' @ NL @ NL @ ''## Original Concept'' @ NL
            @ ''A flowing routine'' @ NL @ NL
            @ ''## Style Framework: Jazz Funk'' @ NL
            @ ''- Character: elegant_lines, refined_technique, traditional_beauty'' @ NL
            @ ''- Movement Quality: controlled_grace'' @ NL
            @ ''- Musical Context: ballet_classical_orchestral'' @ NL
            @ rest)"
    by (simp add: shown)
  with unknown show ?thesis by blast
qed

text \<open>
  Claim C1, as the specification states it: with a style selector that is no key of
  \<^verbatim>\<open>STYLE_VARIATIONS\<close> the tool returns exactly the string it returns with the
  selector \<^verbatim>\<open>classical\<close>. It does not: the selector itself is printed in the text.
\<close>

theorem unknown_style_same_output_counterexample:
  "\<not> py_in ''jazz'' (STYLE_VARIATIONS loaded) \<and>
   ribbon_enhance_prompt loaded ''A flowing routine'' ''jazz'' ''balanced'' \<noteq>
   ribbon_enhance_prompt loaded ''A flowing routine'' ''classical'' ''balanced''"
proof -
  have unknown: "\<not> py_in ''jazz'' (STYLE_VARIATIONS loaded)"
    by (simp add: py_in_def loaded_def STYLE_VARIATIONS_init_def)
  obtain body tail where shape: "\<forall>rd sp tf.
     (sp = ''classical'' \<or> \<not> py_in sp (STYLE_VARIATIONS loaded)) \<longrightarrow>
     ribbon_enhance_prompt loaded rd sp tf =
       Inr (enhancement_template rd sp [''elegant_lines'', ''refined_technique'', ''traditional_beauty'']
              ''controlled_grace'' ''ballet_classical_orchestral'' body tf tail)"
    using enhance_prompt_classical by blast
  have titles: "title (str_replace CHR ''_'' CHR '' '' ''jazz'') = ''Jazz''"
    "title (str_replace CHR ''_'' CHR '' '' ''classical'') = ''Classical''"
    by (simp_all add: title_def str_replace_def upper_char_def lower_char_def is_cased_def
        ascii_lowercase_def ascii_uppercase_def)
  have "ribbon_enhance_prompt loaded ''A flowing routine'' ''jazz'' ''balanced'' \<noteq>
      ribbon_enhance_prompt loaded ''A flowing routine'' ''classical'' ''balanced''"
    using shape unknown by (simp add: enhancement_template_def titles)
  with unknown show ?thesis by blast
qed

text \<open>
  Claim C1, amended. With a style selector that is no key of \<^verbatim>\<open>STYLE_VARIATIONS\<close>
  the tool returns the string it returns with the selector \<^verbatim>\<open>classical\<close>, except at
  the two places that print the selector: the header \<^verbatim>\<open>## Style Framework:\<close> and the
  line \<^verbatim>\<open>For a ... interpretation:\<close>. All the text before, between and after them is
  the same.
\<close>

theorem unknown_style_same_output_but_selector:
  assumes "\<not> py_in sp (STYLE_VARIATIONS loaded)"
  shows "\<exists>before between after.
     ribbon_enhance_prompt loaded rd sp tf =
       Inr (before @ ''## Style Framework: '' @ title (str_replace CHR ''_'' CHR '' '' sp) @ NL
            @ between @ NL @ ''For a '' @ sp @ '' interpretation:'' @ NL @ after) \<and>
     ribbon_enhance_prompt loaded rd ''classical'' tf =
       Inr (before @ ''## Style Framework: '' @ ''Classical'' @ NL
            @ between @ NL @ ''For a '' @ ''classical'' @ '' interpretation:'' @ NL @ after)"
proof -
  obtain body tail where shape: "\<forall>rd sp tf.
     (sp = ''classical'' \<or> \<not> py_in sp (STYLE_VARIATIONS loaded)) \<longrightarrow>
     ribbon_enhance_prompt loaded rd sp tf =
       Inr (enhancement_template rd sp [''elegant_lines'', ''refined_technique'', ''traditional_beauty'']
              ''controlled_grace'' ''ballet_classical_orchestral'' body tf tail)"
    using enhance_prompt_classical by blast
  let ?before = "''# Enhanced Ribbon Routine Description'' @ NL @ NL @ ''## Original Concept'' @ NL
      @ rd @ NL @ NL"
  let ?between = "''- Character: '' @ join '', '' [''elegant_lines'', ''refined_technique'', ''traditional_beauty''] @ NL
      @ ''- Movement Quality: controlled_grace'' @ NL
      @ ''- Musical Context: ballet_classical_orchestral'' @ NL
      @ body"
  let ?after = "''1. Movement Quality: Emphasize controlled_grace'' @ NL
      @ ''2. Spatial Focus: Use '' @ str_replace CHR ''_'' CHR '' '' tf @ NL
      @ ''3. Musical Integration: Match ballet_classical_orchestral'' @ NL
      @ tail"
  have 1: "ribbon_enhance_prompt loaded rd sp tf =
       Inr (?before @ ''## Style Framework: '' @ title (str_replace CHR ''_'' CHR '' '' sp) @ NL
            @ ?between @ NL @ ''For a '' @ sp @ '' interpretation:'' @ NL @ ?after)"
    using shape assms by (simp add: enhancement_template_def)
  have 2: "ribbon_enhance_prompt loaded rd ''classical'' tf =
       Inr (?before @ ''## Style Framework: '' @ ''Classical'' @ NL
            @ ?between @ NL @ ''For a '' @ ''classical'' @ '' interpretation:'' @ NL @ ?after)"
    using shape by (simp add: enhancement_template_def title_classical)
  from 1 2 show ?thesis by blast
qed

theorem unknown_style_same_output_but_selector_witness:
  "\<not> py_in ''jazz'' (STYLE_VARIATIONS loaded) \<and>
   (\<exists>before between after.
     ribbon_enhance_prompt loaded ''A flowing routine'' ''jazz'' ''balanced'' =
       Inr (before @ ''## Style Framework: '' @ ''Jazz'' @ NL
            @ between @ NL @ ''For a '' @ ''jazz'' @ '' interpretation:'' @ NL @ after) \<and>
     ribbon_enhance_prompt loaded ''A flowing routine'' ''classical'' ''balanced'' =
       Inr (before @ ''## Style Framework: '' @ ''Classical'' @ NL
            @ between @ NL @ ''For a '' @ ''classical'' @ '' interpretation:'' @ NL @ after))"
proof -
  have unknown: "\<not> py_in ''jazz'' (STYLE_VARIATIONS loaded)"
    by (simp add: py_in_def loaded_def STYLE_VARIATIONS_init_def)
  have shown: "title (str_replace CHR ''_'' CHR '' '' ''jazz'') = ''Jazz''"
    by (simp add: title_def str_replace_def upper_char_def lower_char_def is_cased_def
        ascii_lowercase_def ascii_uppercase_def)
  from unknown_style_same_output_but_selector [OF unknown, of "''A flowing routine''" "''balanced''"]
  show ?thesis
    unfolding shown using unknown by blast
qed

section \<open>The technical focus\<close>

lemma lines_of_not_Nil: "lines_of s \<noteq> []"
  by (induction s) (simp_all split: list.splits)

lemma lines_of_append_NL: "lines_of (a @ CHR 0x0A # b) = lines_of a @ lines_of b"
proof (induction a)
  case Nil
  show ?case by simp
next
  case (Cons c a)
  obtain l ls where "lines_of a = l # ls"
    using lines_of_not_Nil [of a] by (cases "lines_of a") simp_all
  with Cons show ?case by simp
qed

lemma lines_of_one_line: "CHR 0x0A \<notin> set s \<Longrightarrow> lines_of s = [s]"
  by (induction s) auto

lemma length_lines_of: "length (lines_of s) = Suc (length (filter (\<lambda>c. c = CHR 0x0A) s))"
proof (induction s)
  case Nil
  show ?case by simp
next
  case (Cons c s)
  obtain l ls where "lines_of s = l # ls"
    using lines_of_not_Nil [of s] by (cases "lines_of s") simp_all
  with Cons show ?case by simp
qed

lemma no_difference_with_itself: "filter (\<lambda>(x, y). x \<noteq> y) (zip xs xs) = []"
  by (induction xs) simp_all

lemma one_line_apart:
  assumes "lines_of a = before @ [x] @ after" and "lines_of b = before @ [y] @ after"
  shows "differ_in_one_line_at_most (Inr a) (Inr b)"
  using assms by (simp add: differ_in_one_line_at_most_def no_difference_with_itself)

lemma template_lines:
  "lines_of (enhancement_template rd sp ch mq tm body tf tail) =
     lines_of (''# Enhanced Ribbon Routine Description'' @ NL @ NL @ ''## Original Concept'' @ NL
               @ rd @ NL
               @ NL @ ''## Style Framework: '' @ title (str_replace CHR ''_'' CHR '' '' sp) @ NL
               @ ''- Character: '' @ join '', '' ch @ NL
               @ ''- Movement Quality: '' @ mq @ NL
               @ ''- Musical Context: '' @ tm @ NL
               @ body
               @ NL @ ''For a '' @ sp @ '' interpretation:'' @ NL
               @ ''1. Movement Quality: Emphasize '' @ mq)
     @ lines_of (''2. Spatial Focus: Use '' @ str_replace CHR ''_'' CHR '' '' tf)
     @ lines_of (''3. Musical Integration: Match '' @ tm @ NL @ tail)"
    (is "_ = lines_of ?before @ lines_of ?focus @ lines_of ?after")
proof -
  have "enhancement_template rd sp ch mq tm body tf tail =
      ?before @ CHR 0x0A # (?focus @ CHR 0x0A # ?after)"
    by (simp add: enhancement_template_def)
  then show ?thesis
    by (simp only: lines_of_append_NL)
qed

lemma newlines_after_replace:
  "filter (\<lambda>c. c = CHR 0x0A) (str_replace CHR ''_'' CHR '' '' s) = filter (\<lambda>c. c = CHR 0x0A) s"
  by (induction s) (simp_all add: str_replace_def)

lemma template_line_count:
  "length (lines_of (enhancement_template rd sp ch mq tm body tf tail)) =
     Suc (length (filter (\<lambda>c. c = CHR 0x0A) (enhancement_template rd sp ch mq tm body [] tail))
          + length (filter (\<lambda>c. c = CHR 0x0A) tf))"
  unfolding length_lines_of
  by (simp add: enhancement_template_def newlines_after_replace)

text \<open>
  Claim C9, as the specification states it: for any two values of the technical focus
  the two texts differ in the single line \<^verbatim>\<open>2. Spatial Focus: Use ...\<close> only. A
  technical focus is not validated, so it may hold a newline, and then the texts differ
  in more than one line: here the second text has one more line than the first.
\<close>

theorem technical_focus_one_line_counterexample:
  "\<not> differ_in_one_line_at_most
      (ribbon_enhance_prompt loaded ''A flowing routine'' ''classical'' ''balanced'')
      (ribbon_enhance_prompt loaded ''A flowing routine'' ''classical''
         (''balanced'' @ NL @ ''## Injected''))"
proof -
  obtain body tail where shape: "\<forall>rd sp tf.
     (sp = ''classical'' \<or> \<not> py_in sp (STYLE_VARIATIONS loaded)) \<longrightarrow>
     ribbon_enhance_prompt loaded rd sp tf =
       Inr (enhancement_template rd sp [''elegant_lines'', ''refined_technique'', ''traditional_beauty'']
              ''controlled_grace'' ''ballet_classical_orchestral'' body tf tail)"
    using enhance_prompt_classical by blast
  show ?thesis
    using shape
    by (simp add: differ_in_one_line_at_most_def template_line_count)
qed

text \<open>
  Claim C9, amended. The technical focus is never used as a lookup key and is not
  validated: with the other arguments fixed, the text is one fixed text, then
  \<^verbatim>\<open>2. Spatial Focus: Use\<close> and the technical focus with underscores replaced by
  spaces, then a newline and a second fixed text. When neither of two values of the
  technical focus holds a newline, the two texts differ in that single line at most.
\<close>

theorem technical_focus_only_in_its_line:
  "(\<exists>before after. \<forall>tf. ribbon_enhance_prompt loaded rd sp tf =
       Inr (before @ ''2. Spatial Focus: Use '' @ str_replace CHR ''_'' CHR '' '' tf @ NL @ after)) \<and>
   (CHR 0x0A \<notin> set tf1 \<and> CHR 0x0A \<notin> set tf2 \<longrightarrow>
      differ_in_one_line_at_most (ribbon_enhance_prompt loaded rd sp tf1)
        (ribbon_enhance_prompt loaded rd sp tf2))"
proof -
  obtain body tail ch mq tm where shape: "\<forall>rd tf. ribbon_enhance_prompt loaded rd sp tf =
      Inr (enhancement_template rd sp ch mq tm body tf tail)"
    using enhance_prompt_any by blast
  let ?before = "''# Enhanced Ribbon Routine Description'' @ NL @ NL @ ''## Original Concept'' @ NL
      @ rd @ NL
      @ NL @ ''## Style Framework: '' @ title (str_replace CHR ''_'' CHR '' '' sp) @ NL
      @ ''- Character: '' @ join '', '' ch @ NL
      @ ''- Movement Quality: '' @ mq @ NL
      @ ''- Musical Context: '' @ tm @ NL
      @ body
      @ NL @ ''For a '' @ sp @ '' interpretation:'' @ NL
      @ ''1. Movement Quality: Emphasize '' @ mq @ NL"
  let ?after = "''3. Musical Integration: Match '' @ tm @ NL @ tail"
  have "\<forall>tf. ribbon_enhance_prompt loaded rd sp tf =
      Inr (?before @ ''2. Spatial Focus: Use '' @ str_replace CHR ''_'' CHR '' '' tf @ NL @ ?after)"
    using shape by (simp add: enhancement_template_def)
  then have first: "\<exists>before after. \<forall>tf. ribbon_enhance_prompt loaded rd sp tf =
      Inr (before @ ''2. Spatial Focus: Use '' @ str_replace CHR ''_'' CHR '' '' tf @ NL @ after)"
    by blast
  have second: "differ_in_one_line_at_most (ribbon_enhance_prompt loaded rd sp tf1)
      (ribbon_enhance_prompt loaded rd sp tf2)"
    if no_newline: "CHR 0x0A \<notin> set tf1 \<and> CHR 0x0A \<notin> set tf2"
  proof -
    have line: "lines_of (''2. Spatial Focus: Use '' @ str_replace CHR ''_'' CHR '' '' tf) =
        [''2. Spatial Focus: Use '' @ str_replace CHR ''_'' CHR '' '' tf]"
      if "CHR 0x0A \<notin> set tf" for tf
    proof (rule lines_of_one_line)
      show "CHR 0x0A \<notin> set (''2. Spatial Focus: Use '' @ str_replace CHR ''_'' CHR '' '' tf)"
        using that by (auto simp: str_replace_def)
    qed
    have "lines_of (''2. Spatial Focus: Use '' @ str_replace CHR ''_'' CHR '' '' tf1) =
        [''2. Spatial Focus: Use '' @ str_replace CHR ''_'' CHR '' '' tf1]"
      using line no_newline by blast
    note first_lines = template_lines [of rd sp ch mq tm body tf1 tail, unfolded this]
    have "lines_of (''2. Spatial Focus: Use '' @ str_replace CHR ''_'' CHR '' '' tf2) =
        [''2. Spatial Focus: Use '' @ str_replace CHR ''_'' CHR '' '' tf2]"
      using line no_newline by blast
    note second_lines = template_lines [of rd sp ch mq tm body tf2 tail, unfolded this]
    show ?thesis
      unfolding shape [rule_format]
      by (rule one_line_apart [OF first_lines second_lines])
  qed
  from first second show ?thesis by blast
qed

theorem technical_focus_only_in_its_line_witness:
  "CHR 0x0A \<notin> set ''balanced'' \<and> CHR 0x0A \<notin> set ''movement_rich'' \<and>
   differ_in_one_line_at_most
     (ribbon_enhance_prompt loaded ''A flowing routine'' ''lyrical'' ''balanced'')
     (ribbon_enhance_prompt loaded ''A flowing routine'' ''lyrical'' ''movement_rich'')"
  using technical_focus_only_in_its_line
    [of "''A flowing routine''" "''lyrical''" "''balanced''" "''movement_rich''"]
  by simp

section \<open>The tools without arguments\<close>

lemma for_each_appends_prefixed:
  assumes "\<And>x s. body x s = bind (body x []) (\<lambda>t. Inr (s @ t))"
  shows "for_each body xs (s @ h) = bind (for_each body xs h) (\<lambda>t. Inr (s @ t))"
proof -
  have run: "for_each body xs acc = bind (for_each body xs []) (\<lambda>t. Inr (acc @ t))" for acc
    using assms by (rule for_each_appends)
  show ?thesis
    unfolding run [of "s @ h"] run [of h] by (cases "for_each body xs []") simp_all
qed

lemma join_Cons: "join sep (x # xs) = x @ concat (map (\<lambda>y. sep @ y) xs)"
  by (induction xs arbitrary: x) simp_all

lemma format_taxonomy_section_text:
  "format_taxonomy_section section_name (PDict d) =
     Inr (NL @ ''## '' @ str_replace CHR ''_'' CHR '' '' (upper section_name) @ NL
          @ concat (map (\<lambda>l. NL @ l) (concat (map format_category d))))"
  by (simp add: format_taxonomy_section_def format_taxonomy_lines_def items_def join_Cons)

lemma taxonomy_sections:
  "subscript (load_taxonomy loaded) ''movement_patterns'' = Inr movement_patterns"
  "subscript (load_taxonomy loaded) ''spatial_relationships'' = Inr spatial_relationships"
  "subscript (load_taxonomy loaded) ''temporal_dynamics'' = Inr temporal_dynamics"
  "subscript (load_taxonomy loaded) ''physical_properties'' = Inr physical_properties"
  "subscript (load_taxonomy loaded) ''compositional_structure'' = Inr compositional_structure"
  by (simp_all add: loaded_def load_taxonomy_def RIBBON_TAXONOMY_init_def subscript_def)

lemma sections_are_dicts:
  "\<exists>d. movement_patterns = PDict d" "\<exists>d. spatial_relationships = PDict d"
  "\<exists>d. temporal_dynamics = PDict d" "\<exists>d. physical_properties = PDict d"
  "\<exists>d. compositional_structure = PDict d"
  by (simp_all add: movement_patterns_def spatial_relationships_def temporal_dynamics_def
      physical_properties_def compositional_structure_def)

lemma section_headers:
  "str_replace CHR ''_'' CHR '' '' (upper ''movement_patterns'') = ''MOVEMENT PATTERNS''"
  "str_replace CHR ''_'' CHR '' '' (upper ''spatial_relationships'') = ''SPATIAL RELATIONSHIPS''"
  "str_replace CHR ''_'' CHR '' '' (upper ''temporal_dynamics'') = ''TEMPORAL DYNAMICS''"
  "str_replace CHR ''_'' CHR '' '' (upper ''physical_properties'') = ''PHYSICAL PROPERTIES''"
  "str_replace CHR ''_'' CHR '' '' (upper ''compositional_structure'') = ''COMPOSITIONAL STRUCTURE''"
  by (simp_all add: str_replace_def upper_def upper_char_def ascii_lowercase_def ascii_uppercase_def)

lemma vocabulary_texts:
  "\<exists>rest. ribbon_movement_vocabulary loaded = Inr (NL @ ''## MOVEMENT PATTERNS'' @ NL @ rest)"
  "\<exists>rest. ribbon_spatial_vocabulary loaded = Inr (NL @ ''## SPATIAL RELATIONSHIPS'' @ NL @ rest)"
  "\<exists>rest. ribbon_temporal_vocabulary loaded = Inr (NL @ ''## TEMPORAL DYNAMICS'' @ NL @ rest)"
  "\<exists>rest. ribbon_physical_properties loaded = Inr (NL @ ''## PHYSICAL PROPERTIES'' @ NL @ rest)"
proof -
  obtain d1 d2 d3 d4 where d: "movement_patterns = PDict d1" "spatial_relationships = PDict d2"
    "temporal_dynamics = PDict d3" "physical_properties = PDict d4"
    using sections_are_dicts by blast
  show
    "\<exists>rest. ribbon_movement_vocabulary loaded = Inr (NL @ ''## MOVEMENT PATTERNS'' @ NL @ rest)"
    "\<exists>rest. ribbon_spatial_vocabulary loaded = Inr (NL @ ''## SPATIAL RELATIONSHIPS'' @ NL @ rest)"
    "\<exists>rest. ribbon_temporal_vocabulary loaded = Inr (NL @ ''## TEMPORAL DYNAMICS'' @ NL @ rest)"
    "\<exists>rest. ribbon_physical_properties loaded = Inr (NL @ ''## PHYSICAL PROPERTIES'' @ NL @ rest)"
    by (simp_all add: ribbon_movement_vocabulary_def ribbon_spatial_vocabulary_def
        ribbon_temporal_vocabulary_def ribbon_physical_properties_def Let_def taxonomy_sections
        d format_taxonomy_section_text section_headers)
qed

text \<open>The loops of \<^verbatim>\<open>ribbon_composition_guide\<close>.\<close>

lemma guide_inner_pieces:
  "guide_inner kv s = Inr (s @ (''  - '' @ fst kv @ '': '' @ py_str (snd kv) @ NL))"
  by (simp add: guide_inner_def split: prod.splits)

lemma guide_entry_appends:
  "guide_entry kv s = bind (guide_entry kv []) (\<lambda>t. Inr (s @ t))"
proof (cases kv)
  case (Pair key v)
  show ?thesis
  proof (cases v)
    case (PDict d)
    with Pair show ?thesis
      by (simp add: guide_entry_def Let_def for_each_pieces [of guide_inner, OF guide_inner_pieces])
  qed (simp_all add: Pair guide_entry_def Let_def)
qed

lemma guide_category_appends:
  "guide_category cd s = bind (guide_category cd []) (\<lambda>t. Inr (s @ t))"
proof (cases cd)
  case (Pair rule_category details)
  define h where "h = NL @ ''### '' @ title (str_replace CHR ''_'' CHR '' '' rule_category) @ NL"
  have given: "guide_category cd s = bind (items details) (\<lambda>its. for_each guide_entry its (s @ h))"
    by (simp add: guide_category_def Pair h_def)
  have empty: "guide_category cd [] = bind (items details) (\<lambda>its. for_each guide_entry its h)"
    by (simp add: guide_category_def Pair h_def)
  have "for_each guide_entry its (s @ h) = bind (for_each guide_entry its h) (\<lambda>t. Inr (s @ t))"
    for its
    by (rule for_each_appends_prefixed) (rule guide_entry_appends)
  then show ?thesis
    unfolding given empty by (cases "items details") simp_all
qed

lemma composition_rules_loaded:
  "\<exists>its b. items (COMPOSITIONAL_RULES loaded) = Inr its \<and>
     (\<forall>acc. for_each guide_category its acc = Inr (acc @ b))"
proof -
  have "\<exists>its b. items (COMPOSITIONAL_RULES loaded) = Inr its \<and> for_each guide_category its [] = Inr b"
    by (simp add: loaded_def COMPOSITIONAL_RULES_init_def guide_category_def guide_entry_def
        guide_inner_def py_defs)
  then obtain its b where 1: "items (COMPOSITIONAL_RULES loaded) = Inr its"
    and 2: "for_each guide_category its [] = Inr b"
    by blast
  have "\<forall>acc. for_each guide_category its acc = Inr (acc @ b)"
    using for_each_appends [of guide_category its, OF guide_category_appends] 2 by simp
  with 1 show ?thesis by blast
qed

lemma composition_guide_text:
  "\<exists>formatted rest. ribbon_composition_guide loaded =
     Inr (NL @ ''## COMPOSITIONAL STRUCTURE GUIDE'' @ NL
          @ NL @ ''## COMPOSITIONAL STRUCTURE'' @ NL @ formatted
          @ NL @ NL @ ''## COMPOSITIONAL RULES'' @ NL @ rest)"
proof -
  obtain d where d: "compositional_structure = PDict d"
    using sections_are_dicts by blast
  obtain its b where rules: "items (COMPOSITIONAL_RULES loaded) = Inr its"
    "\<And>acc. for_each guide_category its acc = Inr (acc @ b)"
    using composition_rules_loaded by blast
  have "subscript (RIBBON_TAXONOMY loaded) ''compositional_structure'' = Inr (PDict d)"
    using taxonomy_sections(5) d by (simp add: load_taxonomy_def)
  then have "ribbon_composition_guide loaded =
     Inr (NL @ ''## COMPOSITIONAL STRUCTURE GUIDE'' @ NL
          @ NL @ ''## COMPOSITIONAL STRUCTURE'' @ NL
          @ concat (map (\<lambda>l. NL @ l) (concat (map format_category d)))
          @ NL @ NL @ ''## COMPOSITIONAL RULES'' @ NL @ b)"
    by (simp add: ribbon_composition_guide_def format_taxonomy_section_text section_headers rules)
  then show ?thesis by blast
qed

text \<open>The loops of \<^verbatim>\<open>ribbon_style_variations\<close>.\<close>

lemma style_field_appends:
  "style_field kv s = bind (style_field kv []) (\<lambda>t. Inr (s @ t))"
  by (simp add: style_field_def bind_def split: prod.splits pyval.splits sum.splits)

lemma style_entry_appends:
  "style_entry sd s = bind (style_entry sd []) (\<lambda>t. Inr (s @ t))"
proof (cases sd)
  case (Pair style_name details)
  define h where "h = NL @ ''### '' @ title (str_replace CHR ''_'' CHR '' '' style_name) @ NL"
  have given: "style_entry sd s = bind (items details) (\<lambda>its. for_each style_field its (s @ h))"
    by (simp add: style_entry_def Pair h_def)
  have empty: "style_entry sd [] = bind (items details) (\<lambda>its. for_each style_field its h)"
    by (simp add: style_entry_def Pair h_def)
  have "for_each style_field its (s @ h) = bind (for_each style_field its h) (\<lambda>t. Inr (s @ t))"
    for its
    by (rule for_each_appends_prefixed) (rule style_field_appends)
  then show ?thesis
    unfolding given empty by (cases "items details") simp_all
qed

lemma style_variations_text:
  "\<exists>rest. ribbon_style_variations loaded = Inr (NL @ ''## STYLE VARIATIONS'' @ NL @ rest)"
proof -
  have "\<exists>its b. items (STYLE_VARIATIONS loaded) = Inr its \<and> for_each style_entry its [] = Inr b"
    by (simp add: loaded_def STYLE_VARIATIONS_init_def style_entry_def style_field_def py_defs)
  then obtain its b where 1: "items (STYLE_VARIATIONS loaded) = Inr its"
    and 2: "for_each style_entry its [] = Inr b"
    by blast
  have "for_each style_entry its acc = Inr (acc @ b)" for acc
    using for_each_appends [of style_entry its, OF style_entry_appends] 2 by simp
  with 1 show ?thesis
    by (simp add: ribbon_style_variations_def)
qed

text \<open>The loops of \<^verbatim>\<open>ribbon_full_taxonomy\<close> print a record with \<^verbatim>\<open>str\<close> and cannot raise.\<close>

lemma dump_entry_pieces:
  "dump_entry cd s =
     Inr (s @ (NL @ ''### '' @ title (str_replace CHR ''_'' CHR '' '' (fst cd)) @ NL @ py_str (snd cd)))"
  by (simp add: dump_entry_def split: prod.splits)

lemma full_taxonomy_text:
  "\<exists>sections rules styles. ribbon_full_taxonomy loaded =
     Inr (''# RHYTHMIC RIBBON DANCE VISUAL VOCABULARY'' @ NL
          @ NL @ ''## Complete Taxonomy - All Layers'' @ NL
          @ NL @ ''## MOVEMENT PATTERNS'' @ NL @ sections
          @ NL @ NL @ ''## COMPOSITIONAL RULES (Layer 2)'' @ NL @ rules
          @ NL @ NL @ ''## STYLE VARIATIONS (Layer 3)'' @ NL @ styles
          @ architecture_note)"
proof -
  obtain d1 d2 d3 d4 d5 where d: "movement_patterns = PDict d1" "spatial_relationships = PDict d2"
    "temporal_dynamics = PDict d3" "physical_properties = PDict d4"
    "compositional_structure = PDict d5"
    using sections_are_dicts by blast
  have "\<exists>rule_items style_items. items (COMPOSITIONAL_RULES loaded) = Inr rule_items \<and>
      items (STYLE_VARIATIONS loaded) = Inr style_items"
    by (simp add: loaded_def COMPOSITIONAL_RULES_init_def STYLE_VARIATIONS_init_def items_def)
  then obtain rule_items style_items where its:
    "items (COMPOSITIONAL_RULES loaded) = Inr rule_items"
    "items (STYLE_VARIATIONS loaded) = Inr style_items"
    by blast
  note dump = for_each_pieces [of dump_entry, OF dump_entry_pieces]
  let ?sections = "concat (map (\<lambda>l. NL @ l) (concat (map format_category d1)))
      @ NL @ ''## SPATIAL RELATIONSHIPS'' @ NL
      @ concat (map (\<lambda>l. NL @ l) (concat (map format_category d2)))
      @ NL @ ''## TEMPORAL DYNAMICS'' @ NL
      @ concat (map (\<lambda>l. NL @ l) (concat (map format_category d3)))
      @ NL @ ''## PHYSICAL PROPERTIES'' @ NL
      @ concat (map (\<lambda>l. NL @ l) (concat (map format_category d4)))
      @ NL @ ''## COMPOSITIONAL STRUCTURE'' @ NL
      @ concat (map (\<lambda>l. NL @ l) (concat (map format_category d5)))"
  have "ribbon_full_taxonomy loaded =
     Inr (''# RHYTHMIC RIBBON DANCE VISUAL VOCABULARY'' @ NL
          @ NL @ ''## Complete Taxonomy - All Layers'' @ NL
          @ NL @ ''## MOVEMENT PATTERNS'' @ NL @ ?sections
          @ NL @ NL @ ''## COMPOSITIONAL RULES (Layer 2)'' @ NL
          @ concat (map (\<lambda>cd. NL @ ''### '' @ title (str_replace CHR ''_'' CHR '' '' (fst cd)) @ NL
                            @ py_str (snd cd)) rule_items)
          @ NL @ NL @ ''## STYLE VARIATIONS (Layer 3)'' @ NL
          @ concat (map (\<lambda>cd. NL @ ''### '' @ title (str_replace CHR ''_'' CHR '' '' (fst cd)) @ NL
                            @ py_str (snd cd)) style_items)
          @ architecture_note)"
    by (simp add: ribbon_full_taxonomy_def Let_def taxonomy_sections d
        format_taxonomy_section_text section_headers its dump)
  then show ?thesis by blast
qed

section \<open>Properties of all the tools\<close>

text \<open>
  Claim C2. Every tool call returns a string: \<^verbatim>\<open>ribbon_enhance_prompt\<close> for every
  three argument strings, and each of the seven tools without arguments. No call raises;
  every key the tools look up is in the tables.
\<close>

theorem every_tool_returns_a_string:
  "\<exists>s. tool c loaded = Inr s"
proof (cases c)
  case (Enhance_prompt rd sp tf)
  then show ?thesis
    using enhance_prompt_any by (metis tool.simps(1))
next
  case Movement_vocabulary
  then show ?thesis using vocabulary_texts(1) by auto
next
  case Spatial_vocabulary
  then show ?thesis using vocabulary_texts(2) by auto
next
  case Temporal_vocabulary
  then show ?thesis using vocabulary_texts(3) by auto
next
  case Physical_properties
  then show ?thesis using vocabulary_texts(4) by auto
next
  case Composition_guide
  then show ?thesis using composition_guide_text by auto
next
  case Style_variations
  then show ?thesis using style_variations_text by auto
next
  case Full_taxonomy
  then show ?thesis using full_taxonomy_text by auto
qed


section \<open>The rendering of lists\<close>




















end
